theory Spec2Isabelle
  imports Main
begin

section \<open>Python string operations used by \<open>davos.core.project\<close>\<close>

text \<open>
  Python's \<open>str\<close> is modelled as \<open>string\<close>. The operations below are the ones the
  source calls: \<open>sub in s\<close>, \<open>s.replace(old, new)\<close> and \<open>s.startswith(pre)\<close>.
\<close>

definition startswith :: "string \<Rightarrow> string \<Rightarrow> bool" where
  "startswith s pre = (take (length pre) s = pre)"

text \<open>\<open>sub in s\<close>: some suffix of \<open>s\<close> starts with \<open>sub\<close>.\<close>

fun str_in :: "string \<Rightarrow> string \<Rightarrow> bool" where
  "str_in sub [] = (sub = [])"
| "str_in sub (c # cs) = (startswith (c # cs) sub \<or> str_in sub cs)"

text \<open>
  \<open>s.replace(old, new)\<close> for a non-empty \<open>old = o # os\<close>: a left-to-right scan
  that replaces each non-overlapping occurrence.
\<close>

fun replace_scan :: "char \<Rightarrow> string \<Rightarrow> string \<Rightarrow> string \<Rightarrow> string" where
  "replace_scan o1 os new [] = []"
| "replace_scan o1 os new (c # cs) =
     (if c = o1 \<and> startswith cs os
      then new @ replace_scan o1 os new (drop (length os) cs)
      else c # replace_scan o1 os new cs)"

text \<open>
  With an empty \<open>old\<close>, Python inserts \<open>new\<close> before every character and at the end.
\<close>

definition str_replace :: "string \<Rightarrow> string \<Rightarrow> string \<Rightarrow> string" where
  "str_replace old new s =
     (case old of
        [] \<Rightarrow> new @ concat (map (\<lambda>c. c # new) s)
      | o1 # os \<Rightarrow> replace_scan o1 os new s)"

section \<open>Module constants of \<open>davos.core.project\<close>\<close>

text \<open>\<open>os.sep\<close> on a POSIX host, the platform this development covers.\<close>

definition PATHSEP :: string where
  "PATHSEP = ''/''"

definition PATHSEP_REPLACEMENT :: string where
  "PATHSEP_REPLACEMENT = ''___''"

definition NOTEBOOK_EXT :: string where
  "NOTEBOOK_EXT = ''.ipynb''"

text \<open>
  The \<open>safe_name\<close> computed by \<open>Project._set_names\<close>:
  \<open>name.replace(PATHSEP, PATHSEP_REPLACEMENT).replace('.ipynb', '')\<close>.
\<close>

definition safe_name_of :: "string \<Rightarrow> string" where
  "safe_name_of name =
     str_replace NOTEBOOK_EXT [] (str_replace PATHSEP PATHSEP_REPLACEMENT name)"

text \<open>
  The inverse used by \<open>ProjectChecker.__call__\<close> on a directory name read back from
  disk: \<open>f"{name.replace(PATHSEP_REPLACEMENT, PATHSEP)}.ipynb"\<close>.
\<close>

definition recover_path :: "string \<Rightarrow> string" where
  "recover_path name = str_replace PATHSEP_REPLACEMENT PATHSEP name @ NOTEBOOK_EXT"

section \<open>Paths\<close>

text \<open>
  A \<open>pathlib.Path\<close> is modelled by its string form. \<open>PurePath.name\<close> is the text
  after the last separator, and \<open>PurePath.suffix\<close> is \<open>name[i:]\<close> for
  \<open>i = name.rfind('.')\<close> when \<open>0 < i < len(name) - 1\<close>, else the empty string.
\<close>

definition path_name :: "string \<Rightarrow> string" where
  "path_name p = rev (takeWhile (\<lambda>c. c \<noteq> CHR ''/'') (rev p))"

definition path_suffix :: "string \<Rightarrow> string" where
  "path_suffix p =
     (let nm = path_name p;
          ext = rev (takeWhile (\<lambda>c. c \<noteq> CHR ''.'') (rev nm))
      in if CHR ''.'' \<in> set nm \<and> ext \<noteq> [] \<and> Suc (length ext) < length nm
         then CHR ''.'' # ext else [])"

definition path_parent :: "string \<Rightarrow> string" where
  "path_parent p =
     (let d = rev (drop 1 (dropWhile (\<lambda>c. c \<noteq> CHR ''/'') (rev p)))
      in if CHR ''/'' \<notin> set p then ''.'' else if d = [] then PATHSEP else d)"

text \<open>
  \<open>Path.joinpath\<close> on normalised operands: an absolute segment replaces the base, an
  empty or \<open>'.'\<close> segment leaves the base unchanged.
\<close>

definition joinpath :: "string \<Rightarrow> string \<Rightarrow> string" where
  "joinpath d seg =
     (if startswith seg PATHSEP then seg
      else if seg = [] \<or> seg = ''.'' then d
      else if d = PATHSEP then d @ seg
      else d @ PATHSEP @ seg)"

section \<open>The file system\<close>

text \<open>
  The disk is an association list from path strings to nodes; the first entry for a
  path is the live one. \<open>LockedDir\<close> is a directory whose listing the operating system
  denies (no read permission). Paths are compared as strings: symbolic links and
  \<open>..\<close> components are outside the model.
\<close>

datatype node = File | Dir | LockedDir

type_synonym filesystem = "(string \<times> node) list"

datatype oserror =
    FileNotFoundError | FileExistsError | NotADirectoryError
  | DirectoryNotEmpty | PermissionError

datatype error =
    DavosProjectError string
  | NotImplementedError string
  | AttributeError string
  | OSError oserror
  | CalledProcessError int "string list"
  | KeyboardInterrupt

definition is_dir :: "filesystem \<Rightarrow> string \<Rightarrow> bool" where
  "is_dir fs p = (case map_of fs p of Some Dir \<Rightarrow> True | Some LockedDir \<Rightarrow> True | _ \<Rightarrow> False)"

definition is_file :: "filesystem \<Rightarrow> string \<Rightarrow> bool" where
  "is_file fs p = (map_of fs p = Some File)"

text \<open>\<open>under d q\<close>: the path \<open>q\<close> lies strictly inside the directory \<open>d\<close>.\<close>

definition under :: "string \<Rightarrow> string \<Rightarrow> bool" where
  "under d q = (q \<noteq> d \<and> startswith q (if d = PATHSEP then d else d @ PATHSEP))"

definition children :: "filesystem \<Rightarrow> string \<Rightarrow> string list" where
  "children fs d = remdups (filter (\<lambda>q. path_parent q = d \<and> q \<noteq> d) (map fst fs))"

text \<open>\<open>Path.iterdir()\<close>, consumed: the entries of a directory, or the error raised.\<close>

definition iterdir :: "filesystem \<Rightarrow> string \<Rightarrow> error + string list" where
  "iterdir fs p =
     (case map_of fs p of
        None \<Rightarrow> Inl (OSError FileNotFoundError)
      | Some File \<Rightarrow> Inl (OSError NotADirectoryError)
      | Some LockedDir \<Rightarrow> Inl (OSError PermissionError)
      | Some Dir \<Rightarrow> Inr (children fs p))"

text \<open>\<open>Path.mkdir(parents=False, exist_ok=True)\<close>.\<close>

definition mkdir :: "filesystem \<Rightarrow> string \<Rightarrow> error + filesystem" where
  "mkdir fs p =
     (case map_of fs p of
        Some File \<Rightarrow> Inl (OSError FileExistsError)
      | Some Dir \<Rightarrow> Inr fs
      | Some LockedDir \<Rightarrow> Inr fs
      | None \<Rightarrow>
          (case map_of fs (path_parent p) of
             None \<Rightarrow> Inl (OSError FileNotFoundError)
           | Some File \<Rightarrow> Inl (OSError NotADirectoryError)
           | Some Dir \<Rightarrow> Inr ((p, Dir) # fs)
           | Some LockedDir \<Rightarrow> Inr ((p, Dir) # fs)))"

text \<open>\<open>Path.rmdir()\<close>: removes an empty directory.\<close>

definition rmdir :: "filesystem \<Rightarrow> string \<Rightarrow> error + filesystem" where
  "rmdir fs p =
     (case map_of fs p of
        None \<Rightarrow> Inl (OSError FileNotFoundError)
      | Some File \<Rightarrow> Inl (OSError NotADirectoryError)
      | Some _ \<Rightarrow>
          (if children fs p \<noteq> [] then Inl (OSError DirectoryNotEmpty)
           else Inr (filter (\<lambda>(q, n). q \<noteq> p) fs)))"

text \<open>
  \<open>shutil.rmtree(path)\<close> with the default \<open>ignore_errors=False\<close>: the tree is
  listed recursively, so a directory in it that cannot be listed makes the call raise.
\<close>

definition rmtree :: "filesystem \<Rightarrow> string \<Rightarrow> error + filesystem" where
  "rmtree fs p =
     (case map_of fs p of
        None \<Rightarrow> Inl (OSError FileNotFoundError)
      | Some File \<Rightarrow> Inl (OSError NotADirectoryError)
      | Some _ \<Rightarrow>
          (if list_ex (\<lambda>q. (q = p \<or> under p q) \<and> map_of fs q = Some LockedDir) (map fst fs)
           then Inl (OSError PermissionError)
           else Inr (filter (\<lambda>(q, n). q \<noteq> p \<and> \<not> under p q) fs)))"

section \<open>The host environment\<close>

text \<open>
  What the module reads from its host and does not define itself:
  \<^item> \<open>home\<close>: \<open>str(Path.home())\<close>;
  \<^item> \<open>py_major\<close>, \<open>py_minor\<close>: \<open>sys.version_info.major\<close> and \<open>.minor\<close>, as text;
  \<^item> \<open>resolve\<close>: \<open>str(Path(expandvars(name)).expanduser().resolve(strict=False))\<close>;
  \<^item> \<open>path_str\<close>: \<open>str(Path(s))\<close>, the normalised text of a path;
  \<^item> \<open>prompt_input\<close>: \<open>davos.core.core.prompt_input(prompt, default)\<close>, the user's
    answer to a yes/no question;
  \<^item> \<open>object_names\<close>: the names attribute lookup finds on every instance through
    \<open>object\<close> (\<open>__class__\<close>, \<open>__eq__\<close>, ...);
  \<^item> \<open>type_names\<close>: the names attribute lookup finds on every class through its
    metaclass \<open>type\<close> (\<open>mro\<close>, \<open>__name__\<close>, \<open>__bases__\<close>, ...);
  \<^item> \<open>class_statement_names\<close>: the names every class statement stores in the
    namespace of the class it creates (\<open>__module__\<close>, \<open>__doc__\<close>, ...).
\<close>

record env =
  home :: string
  py_major :: string
  py_minor :: string
  resolve :: "string \<Rightarrow> string"
  path_str :: "string \<Rightarrow> string"
  prompt_input :: "string \<Rightarrow> string \<Rightarrow> bool"
  object_names :: "string list"
  type_names :: "string list"
  class_statement_names :: "string list"

definition DAVOS_CONFIG_DIR :: "env \<Rightarrow> string" where
  "DAVOS_CONFIG_DIR e = joinpath (home e) ''.davos''"

definition DAVOS_PROJECT_DIR :: "env \<Rightarrow> string" where
  "DAVOS_PROJECT_DIR e = joinpath (DAVOS_CONFIG_DIR e) ''projects''"

definition SITE_PACKAGES_SUFFIX :: "env \<Rightarrow> string" where
  "SITE_PACKAGES_SUFFIX e =
     ''lib'' @ PATHSEP @ (''python'' @ py_major e @ ''.'' @ py_minor e) @ PATHSEP @ ''site-packages''"

section \<open>Projects\<close>

datatype variant = ConcreteProject | AbstractProject

record project =
  kind :: variant
  name :: string
  safe_name :: string
  project_dir :: string
  site_packages_dir :: string

text \<open>
  The mutable world: the disk, the \<open>atexit\<close> registry (the arguments registered for
  \<open>cleanup_project_dir_atexit\<close>) and the lines written by \<open>print\<close>. A call that
  raises is modelled by its exception alone (\<open>Inl\<close>); a call that returns carries
  the new state (\<open>Inr\<close>).
\<close>

record state =
  fs :: filesystem
  atexit_registry :: "string list"
  printed :: "string list"

definition quoted :: "string \<Rightarrow> string" where
  "quoted s = CHR 0x27 # s @ [CHR 0x27]"

text \<open>The message of the \<open>DavosProjectError\<close> raised by \<open>ProjectChecker.__call__\<close>.\<close>

definition invalid_name_msg :: "string \<Rightarrow> string \<Rightarrow> string" where
  "invalid_name_msg nm name_path =
     ''Invalid project name: '' @ quoted nm @ '' (which resolves to '' @ quoted name_path
     @ ''). Project names may be either a simple name (without '' @ quoted PATHSEP
     @ '') or a path to a Jupyter notebook (.ipynb) file.''"

text \<open>
  \<open>ProjectChecker.__call__\<close> up to its last line: the class to initialise and the
  normalised name, or the naming error. The \<open>cls\<close> argument is not read by the source.
\<close>

definition ProjectChecker_classify :: "env \<Rightarrow> filesystem \<Rightarrow> string \<Rightarrow> error + (variant \<times> string)" where
  "ProjectChecker_classify e disk nm =
     (if str_in PATHSEP nm then
        (let name_path = resolve e nm in
         if path_suffix name_path \<noteq> ''.ipynb'' \<or> is_dir disk name_path
         then Inl (DavosProjectError (invalid_name_msg nm name_path))
         else if \<not> is_file disk name_path then Inr (AbstractProject, name_path)
         else Inr (ConcreteProject, name_path))
      else if str_in PATHSEP_REPLACEMENT nm then
        (let name_path = path_str e (recover_path nm) in
         if \<not> is_file disk name_path then Inr (AbstractProject, name_path)
         else Inr (ConcreteProject, name_path))
      else Inr (ConcreteProject, nm))"

text \<open>\<open>Project._set_names\<close>.\<close>

definition Project_set_names :: "env \<Rightarrow> variant \<Rightarrow> string \<Rightarrow> project" where
  "Project_set_names e cls nm =
     (let sn = safe_name_of nm;
          pd = joinpath (DAVOS_PROJECT_DIR e) sn
      in \<lparr>kind = cls, name = nm, safe_name = sn, project_dir = pd,
          site_packages_dir = joinpath pd (SITE_PACKAGES_SUFFIX e)\<rparr>)"

text \<open>
  \<open>Project.__init__\<close>, which \<open>AbstractProject\<close> inherits unchanged: set the names,
  create the directory, register the exit hook.
\<close>

definition Project_init :: "env \<Rightarrow> state \<Rightarrow> variant \<Rightarrow> string \<Rightarrow> error + (project \<times> state)" where
  "Project_init e st cls nm =
     (let self = Project_set_names e cls nm in
      case mkdir (fs st) (project_dir self) of
        Inl err \<Rightarrow> Inl err
      | Inr disk \<Rightarrow>
          Inr (self, st\<lparr>fs := disk,
                         atexit_registry := atexit_registry st @ [project_dir self]\<rparr>))"

text \<open>\<open>ConcreteProject.__init__\<close>: \<open>super().__init__(name)\<close>.\<close>

definition ConcreteProject_init :: "env \<Rightarrow> state \<Rightarrow> string \<Rightarrow> error + (project \<times> state)" where
  "ConcreteProject_init e st nm = Project_init e st ConcreteProject nm"

text \<open>\<open>type.__call__(cls_to_init, name)\<close>: run the initialiser of the chosen class.\<close>

definition type_call :: "env \<Rightarrow> state \<Rightarrow> variant \<Rightarrow> string \<Rightarrow> error + (project \<times> state)" where
  "type_call e st cls nm =
     (case cls of
        ConcreteProject \<Rightarrow> ConcreteProject_init e st nm
      | AbstractProject \<Rightarrow> Project_init e st AbstractProject nm)"

text \<open>\<open>Project(name)\<close>, that is \<open>ProjectChecker.__call__(cls, name)\<close>.\<close>

definition ProjectChecker_call :: "env \<Rightarrow> state \<Rightarrow> string \<Rightarrow> error + (project \<times> state)" where
  "ProjectChecker_call e st nm =
     (case ProjectChecker_classify e (fs st) nm of
        Inl err \<Rightarrow> Inl err
      | Inr (cls_to_init, nm') \<Rightarrow> type_call e st cls_to_init nm')"

text \<open>
  \<open>try: ... except OSError: pass\<close>: an \<open>OSError\<close> leaves the state as it was, any
  other exception propagates.
\<close>

definition except_OSError_pass :: "'a \<Rightarrow> error + 'a \<Rightarrow> error + 'a" where
  "except_OSError_pass unchanged r =
     (case r of
        Inl (OSError _) \<Rightarrow> Inr unchanged
      | Inl err \<Rightarrow> Inl err
      | Inr changed \<Rightarrow> Inr changed)"

text \<open>\<open>Project.__del__\<close>.\<close>

definition Project_del :: "filesystem \<Rightarrow> project \<Rightarrow> error + filesystem" where
  "Project_del disk self = except_OSError_pass disk (rmdir disk (project_dir self))"

text \<open>\<open>cleanup_project_dir_atexit(dirpath)\<close>.\<close>

definition cleanup_project_dir_atexit :: "filesystem \<Rightarrow> string \<Rightarrow> error + filesystem" where
  "cleanup_project_dir_atexit disk dirpath =
     (if is_dir disk dirpath then
        (case iterdir disk dirpath of
           Inl err \<Rightarrow> Inl err
         | Inr entries \<Rightarrow>
             (if entries = [] then except_OSError_pass disk (rmdir disk dirpath)
              else Inr disk))
      else Inr disk)"

text \<open>\<open>Project.remove(yes)\<close>.\<close>

definition Project_remove :: "env \<Rightarrow> state \<Rightarrow> project \<Rightarrow> bool \<Rightarrow> error + state" where
  "Project_remove e st self yes =
     (let removal =
            (let st1 = st\<lparr>printed := printed st @ [''Removing '' @ project_dir self @ ''...'']\<rparr>
             in case rmtree (fs st1) (project_dir self) of
                  Inl err \<Rightarrow> Inl err
                | Inr disk \<Rightarrow> Inr (st1\<lparr>fs := disk\<rparr>))
      in if \<not> yes then
           (let prompt = ''Remove project '' @ [CHR 0x27] @ name self
                         @ '' and all installed packages?'';
                confirmed = prompt_input e prompt ''n''
            in if \<not> confirmed
               then Inr (st\<lparr>printed := printed st @ [name self @ '' not removed'']\<rparr>)
               else removal)
         else removal)"

text \<open>\<open>Project.rename\<close> and \<open>Project.update_name\<close>: \<open>raise NotImplementedError\<close>.\<close>

definition Project_rename :: "project \<Rightarrow> 'a \<Rightarrow> error + 'b" where
  "Project_rename self new_name = Inl (NotImplementedError [])"

definition Project_update_name :: "project \<Rightarrow> error + 'b" where
  "Project_update_name self = Inl (NotImplementedError [])"

text \<open>The property \<open>ConcreteProject.installed_packages\<close>.\<close>

definition ConcreteProject_installed_packages :: "project \<Rightarrow> error + 'b" where
  "ConcreteProject_installed_packages self = Inl (NotImplementedError [])"

section \<open>Attribute lookup on project instances\<close>

text \<open>
  The namespace of each class of the module: the names its body defines, the names
  the class statement adds, and for \<open>Project\<close>, the first class of the hierarchy, the
  \<open>__dict__\<close> and \<open>__weakref__\<close> descriptors of its instances.
  \<open>Project_methods\<close> are the operations the \<open>Project\<close> body defines.
\<close>

definition Project_methods :: "string list" where
  "Project_methods =
     [''__init__'', ''__del__'', ''__repr__'', ''_set_names'', ''remove'', ''rename'',
      ''update_name'']"

definition Project_namespace :: "env \<Rightarrow> string list" where
  "Project_namespace e =
     Project_methods @ [''__dict__'', ''__weakref__''] @ class_statement_names e"

definition AbstractProject_namespace :: "env \<Rightarrow> string list" where
  "AbstractProject_namespace e = [''__getattr__'', ''__repr__''] @ class_statement_names e"

definition ConcreteProject_namespace :: "env \<Rightarrow> string list" where
  "ConcreteProject_namespace e =
     [''__init__'', ''installed_packages''] @ class_statement_names e"

definition ProjectChecker_namespace :: "env \<Rightarrow> string list" where
  "ProjectChecker_namespace e = [''__call__''] @ class_statement_names e"

text \<open>The attributes \<open>_set_names\<close> stores on an instance.\<close>

definition instance_dict :: "project \<Rightarrow> (string \<times> string) list" where
  "instance_dict self =
     [(''name'', name self), (''safe_name'', safe_name self),
      (''project_dir'', project_dir self), (''site_packages_dir'', site_packages_dir self)]"

text \<open>
  The names found along the method resolution order of a project class: its own
  namespace, then \<open>Project\<close>'s, then \<open>object\<close>'s.
\<close>

definition class_mro_names :: "env \<Rightarrow> variant \<Rightarrow> string list" where
  "class_mro_names e cls =
     (case cls of ConcreteProject \<Rightarrow> ConcreteProject_namespace e
                | AbstractProject \<Rightarrow> AbstractProject_namespace e)
     @ Project_namespace e @ object_names e"

text \<open>
  \<open>hasattr(cls, item)\<close> for a project class: the lookup on a class searches the
  class's own resolution order and also that of its metaclass, \<open>ProjectChecker\<close>,
  then \<open>type\<close>, then \<open>object\<close>.
\<close>

definition hasattr_class :: "env \<Rightarrow> variant \<Rightarrow> string \<Rightarrow> bool" where
  "hasattr_class e cls item =
     (item \<in> set (class_mro_names e cls)
      \<or> item \<in> set (ProjectChecker_namespace e @ type_names e @ object_names e))"

definition unsupported_msg :: "string \<Rightarrow> string" where
  "unsupported_msg item = quoted item @ '' is not supported for abstract projects''"

definition no_attribute_msg :: "string \<Rightarrow> string \<Rightarrow> string" where
  "no_attribute_msg cls_name item =
     quoted cls_name @ '' object has no attribute '' @ quoted item"

text \<open>\<open>AbstractProject.__getattr__\<close>, called only when the normal lookup fails.\<close>

definition AbstractProject_getattr :: "env \<Rightarrow> project \<Rightarrow> string \<Rightarrow> error + 'a" where
  "AbstractProject_getattr e self item =
     Inl (AttributeError
            (if hasattr_class e ConcreteProject item then unsupported_msg item
             else no_attribute_msg ''AbstractProject'' item))"

text \<open>What an attribute access yields: a stored value or an attribute of the class.\<close>

datatype member = Field string | ClassAttr string

text \<open>
  \<open>self.item\<close>: a property of the instance's class runs its getter; then the instance
  dictionary, then the resolution order of the instance's class (an instance does not
  see the names of the metaclass); last \<open>__getattr__\<close> where the class defines it.
\<close>

definition getattribute :: "env \<Rightarrow> project \<Rightarrow> string \<Rightarrow> error + member" where
  "getattribute e self item =
     (if kind self = ConcreteProject \<and> item = ''installed_packages''
      then ConcreteProject_installed_packages self
      else
        (case map_of (instance_dict self) item of
           Some v \<Rightarrow> Inr (Field v)
         | None \<Rightarrow>
             if item \<in> set (class_mro_names e (kind self)) then Inr (ClassAttr item)
             else
               (case kind self of
                  AbstractProject \<Rightarrow> AbstractProject_getattr e self item
                | ConcreteProject \<Rightarrow>
                    Inl (AttributeError (no_attribute_msg ''ConcreteProject'' item)))))"


definition call_rename :: "env \<Rightarrow> project \<Rightarrow> 'a \<Rightarrow> error + unit" where
  "call_rename e self new_name =
     (case getattribute e self ''rename'' of
        Inl err \<Rightarrow> Inl err
      | Inr _ \<Rightarrow> Project_rename self new_name)"

definition call_update_name :: "env \<Rightarrow> project \<Rightarrow> error + unit" where
  "call_update_name e self =
     (case getattribute e self ''update_name'' of
        Inl err \<Rightarrow> Inl err
      | Inr _ \<Rightarrow> Project_update_name self)"

section \<open>\<open>davos.implementations.python\<close>\<close>

text \<open>The five stubs; each ignores its arguments and raises.\<close>

definition activate_helper :: "'a \<Rightarrow> 'b \<Rightarrow> error + 'c" where
  "activate_helper smuggle_func parser_func =
     Inl (NotImplementedError ''davos does not yet support non-interactive Python environments'')"

definition deactivate_helper :: "'a \<Rightarrow> 'b \<Rightarrow> error + 'c" where
  "deactivate_helper smuggle_func parser_func =
     Inl (NotImplementedError ''davos does not yet support non-interactive Python environments'')"

definition auto_restart_rerun :: "'a \<Rightarrow> error + 'c" where
  "auto_restart_rerun pkgs =
     Inl (NotImplementedError
       (''automatic rerunning not available in non-interactive Python (this ''
        @ ''function should not be reachable through normal use).''))"

definition generate_parser_func :: "'a \<Rightarrow> error + 'c" where
  "generate_parser_func line_parser =
     Inl (NotImplementedError ''davos does not yet support non-interactive Python environments'')"

definition prompt_restart_rerun_buttons :: "'a \<Rightarrow> error + 'c" where
  "prompt_restart_rerun_buttons pkgs =
     Inl (NotImplementedError
       (''button-based user input prompts are not available in non-interactive ''
        @ ''Python (this function should not be reachable through normal use).''))"

text \<open>A \<open>NotImplementedError\<close>, with any message.\<close>

fun is_not_implemented :: "error + 'a \<Rightarrow> bool" where
  "is_not_implemented (Inl (NotImplementedError _)) = True"
| "is_not_implemented _ = False"

subsection \<open>The shell helper\<close>

text \<open>
  The child process as the helper sees it. While the child runs, \<open>poll()\<close> is
  \<open>None\<close> and each loop iteration consumes one event: \<open>Readline s\<close>, the text
  \<open>stdout.readline()\<close> returns (empty at end of stream), or \<open>Interrupt\<close>, a
  \<open>KeyboardInterrupt\<close> delivered during that iteration. Once the events are used
  up the child has terminated and \<open>poll()\<close> is \<open>returncode\<close> from then on.
\<close>

datatype poll_event = Readline string | Interrupt

record process =
  events :: "poll_event list"
  returncode :: int

text \<open>\<open>shlex.split\<close> and \<open>Popen\<close> belong to the host.\<close>

record shell =
  shlex_split :: "string \<Rightarrow> string list"
  popen :: "string list \<Rightarrow> process"

text \<open>
  What a finished call leaves behind: the exception raised or the value returned, the
  text written to \<open>sys.stdout\<close>, and whether \<open>SIGINT\<close> was sent to the child.
\<close>

record outcome =
  result :: "error + int"
  written :: string
  sigint_sent :: bool

text \<open>
  The \<open>while True\<close> loop, with fuel: \<open>None\<close> means that the loop is still running
  after that many iterations. An iteration with \<open>retcode == 0\<close> takes neither branch
  of the source's \<open>if\<close>/\<open>elif\<close> and loops again.
\<close>

fun helper_loop :: "nat \<Rightarrow> string list \<Rightarrow> poll_event list \<Rightarrow> int \<Rightarrow> string \<Rightarrow> outcome option" where
  "helper_loop 0 cmd evs rc out = None"
| "helper_loop (Suc n) cmd (Readline s # evs) rc out =
     helper_loop n cmd evs rc (if s \<noteq> [] then out @ s else out)"
| "helper_loop (Suc n) cmd (Interrupt # evs) rc out =
     Some \<lparr>result = Inl KeyboardInterrupt, written = out, sigint_sent = True\<rparr>"
| "helper_loop (Suc n) cmd [] rc out =
     (if rc \<noteq> 0
      then Some \<lparr>result = Inl (CalledProcessError rc cmd), written = out, sigint_sent = False\<rparr>
      else helper_loop n cmd [] rc out)"

text \<open>\<open>_run_shell_command_helper(command)\<close>.\<close>

definition run_shell_command_helper :: "shell \<Rightarrow> nat \<Rightarrow> string \<Rightarrow> outcome option" where
  "run_shell_command_helper sh fuel command =
     (let cmd = shlex_split sh command;
          process = popen sh cmd
      in helper_loop fuel cmd (events process) (returncode process) [])"

section \<open>A sample host\<close>

text \<open>
  A host whose inputs are already absolute and normalised, so that resolving and
  normalising leave them as they are, and whose user declines every prompt. The
  built-in names are those of CPython 3.11.
\<close>

definition sample_env :: env where
  "sample_env =
     \<lparr>home = ''/home/user'', py_major = ''3'', py_minor = ''11'',
      resolve = (\<lambda>s. s), path_str = (\<lambda>s. s), prompt_input = (\<lambda>prompt default. False),
      object_names =
        [''__class__'', ''__delattr__'', ''__dir__'', ''__doc__'', ''__eq__'', ''__format__'',
         ''__ge__'', ''__getattribute__'', ''__getstate__'', ''__gt__'', ''__hash__'',
         ''__init__'', ''__init_subclass__'', ''__le__'', ''__lt__'', ''__ne__'', ''__new__'',
         ''__reduce__'', ''__reduce_ex__'', ''__repr__'', ''__setattr__'', ''__sizeof__'',
         ''__str__'', ''__subclasshook__''],
      type_names =
        [''__new__'', ''__repr__'', ''__call__'', ''__getattribute__'', ''__setattr__'',
         ''__delattr__'', ''__init__'', ''__or__'', ''__ror__'', ''mro'', ''__subclasses__'',
         ''__prepare__'', ''__instancecheck__'', ''__subclasscheck__'', ''__dir__'',
         ''__sizeof__'', ''__basicsize__'', ''__itemsize__'', ''__flags__'',
         ''__weakrefoffset__'', ''__base__'', ''__dictoffset__'', ''__mro__'', ''__name__'',
         ''__qualname__'', ''__bases__'', ''__module__'', ''__dict__'', ''__doc__'',
         ''__text_signature__'', ''__annotations__''],
      class_statement_names = [''__module__'', ''__doc__'']\<rparr>"

definition sample_disk :: filesystem where
  "sample_disk =
     [(''/home/user/.davos/projects'', Dir), (''/home/user/.davos'', Dir),
      (''/home/user/nb'', Dir), (''/home/user/nb/old.ipynb'', File),
      (''/home/user/nb/notes.txt'', File), (''/home/user/nb/dir.ipynb'', Dir),
      (''/home/user'', Dir)]"

definition sample_state :: state where
  "sample_state = \<lparr>fs = sample_disk, atexit_registry = [], printed = []\<rparr>"

text \<open>The project \<open>myproj\<close> with a package installed under its directory.\<close>

definition sample_project :: "variant \<Rightarrow> project" where
  "sample_project cls =
     \<lparr>kind = cls, name = ''myproj'', safe_name = ''myproj'',
      project_dir = ''/home/user/.davos/projects/myproj'',
      site_packages_dir = ''/home/user/.davos/projects/myproj/lib/python3.11/site-packages''\<rparr>"

definition installed_disk :: filesystem where
  "installed_disk =
     [(''/home/user/.davos/projects/myproj/lib/pkg.py'', File),
      (''/home/user/.davos/projects/myproj/lib'', Dir),
      (''/home/user/.davos/projects/myproj'', Dir)] @ sample_disk"

definition installed_state :: state where
  "installed_state = \<lparr>fs = installed_disk, atexit_registry = [], printed = []\<rparr>"



text \<open>The same project directory, empty, with its read permission taken away.\<close>

definition locked_disk :: filesystem where
  "locked_disk = (''/home/user/.davos/projects/myproj'', LockedDir) # sample_disk"

text \<open>A shell whose every command is one word and whose child exits at once.\<close>

definition sample_shell :: "int \<Rightarrow> shell" where
  "sample_shell rc =
     \<lparr>shlex_split = (\<lambda>command. [command]),
      popen = (\<lambda>cmd. \<lparr>events = [], returncode = rc\<rparr>)\<rparr>"

section \<open>Properties of the string operations\<close>

lemma startswith_Nil [simp]: "startswith s []"
  by (simp add: startswith_def)

lemma startswith_Nil_left [simp]: "startswith [] pre \<longleftrightarrow> pre = []"
  by (auto simp: startswith_def)

lemma startswith_Cons [simp]:
  "startswith (c # s) (a # pre) \<longleftrightarrow> c = a \<and> startswith s pre"
  by (auto simp: startswith_def)

lemma startswith_iff: "startswith s pre \<longleftrightarrow> (\<exists>r. s = pre @ r)"
  unfolding startswith_def
  by (metis append_eq_conv_conj append_take_drop_id)

lemma startswith_append: "startswith s pre \<Longrightarrow> startswith (s @ r) pre"
  by (auto simp: startswith_iff)

lemma str_in_append: "str_in sub s \<Longrightarrow> str_in sub (s @ r)"
proof (induction s)
  case Nil
  then show ?case by (cases r) auto
next
  case (Cons c cs)
  then show ?case using startswith_append [of "c # cs" sub r] by auto
qed

lemma flatten_Nil: "str_replace PATHSEP PATHSEP_REPLACEMENT [] = []"
  by (simp add: str_replace_def PATHSEP_def)

lemma flatten_Cons:
  "str_replace PATHSEP PATHSEP_REPLACEMENT (c # cs) =
     (if c = CHR ''/'' then ''___'' else [c]) @ str_replace PATHSEP PATHSEP_REPLACEMENT cs"
  by (simp add: str_replace_def PATHSEP_def PATHSEP_REPLACEMENT_def)

lemma flatten_startswith:
  "startswith (str_replace PATHSEP PATHSEP_REPLACEMENT q) w \<Longrightarrow>
   CHR ''_'' \<notin> set w \<Longrightarrow> startswith q w"
proof (induction w arbitrary: q)
  case Nil
  then show ?case by simp
next
  case (Cons a w)
  show ?case
  proof (cases q)
    case Nil
    with Cons.prems show ?thesis by (simp add: flatten_Nil)
  next
    case (Cons c q')
    with Cons.prems Cons.IH [of q'] show ?thesis
      by (auto simp: flatten_Cons split: if_splits)
  qed
qed

lemma flatten_str_in_ext:
  "str_in NOTEBOOK_EXT (str_replace PATHSEP PATHSEP_REPLACEMENT q) \<Longrightarrow> str_in NOTEBOOK_EXT q"
proof (induction q)
  case Nil
  then show ?case by (simp add: flatten_Nil)
next
  case (Cons c q)
  show ?case
  proof (cases "c = CHR ''/''")
    case True
    with Cons show ?thesis by (simp add: flatten_Cons NOTEBOOK_EXT_def)
  next
    case False
    have "startswith (str_replace PATHSEP PATHSEP_REPLACEMENT (c # q)) NOTEBOOK_EXT
          \<Longrightarrow> startswith (c # q) NOTEBOOK_EXT"
      by (rule flatten_startswith) (simp_all add: NOTEBOOK_EXT_def)
    with False Cons show ?thesis by (auto simp: flatten_Cons)
  qed
qed

lemma unflatten_flatten:
  "\<not> str_in ''_/'' q \<Longrightarrow> \<not> str_in ''___'' q \<Longrightarrow>
   str_replace PATHSEP_REPLACEMENT PATHSEP (str_replace PATHSEP PATHSEP_REPLACEMENT q) = q"
proof (induction q)
  case Nil
  show ?case unfolding flatten_Nil by (simp add: str_replace_def PATHSEP_REPLACEMENT_def)
next
  case (Cons c q)
  then have IH: "str_replace PATHSEP_REPLACEMENT PATHSEP (str_replace PATHSEP PATHSEP_REPLACEMENT q) = q"
    by simp
  show ?case
  proof (cases "c = CHR ''/''")
    case True
    with IH show ?thesis
      by (simp add: flatten_Cons str_replace_def PATHSEP_REPLACEMENT_def PATHSEP_def)
  next
    case False
    note nsep = this
    show ?thesis
    proof (cases "c = CHR ''_''")
      case False
      with nsep IH show ?thesis
        by (simp add: flatten_Cons str_replace_def PATHSEP_REPLACEMENT_def PATHSEP_def)
    next
      case True
      have "\<not> startswith (str_replace PATHSEP PATHSEP_REPLACEMENT q) ''__''"
      proof (cases q)
        case Nil
        then show ?thesis by (simp add: flatten_Nil)
      next
        case (Cons d q')
        note q = this
        show ?thesis
        proof (cases q')
          case Nil
          with q Cons.prems True show ?thesis
            by (auto simp: flatten_Cons flatten_Nil)
        next
          case (Cons e q'')
          with q Cons.prems True show ?thesis
            by (auto simp: flatten_Cons)
        qed
      qed
      with True IH show ?thesis
        by (simp add: flatten_Cons str_replace_def PATHSEP_REPLACEMENT_def PATHSEP_def)
    qed
  qed
qed

lemma strip_ext:
  "\<not> str_in NOTEBOOK_EXT f \<Longrightarrow> str_replace NOTEBOOK_EXT [] (f @ NOTEBOOK_EXT) = f"
proof (induction f)
  case Nil
  then show ?case by (simp add: str_replace_def NOTEBOOK_EXT_def startswith_def)
next
  case (Cons c f)
  then have IH: "str_replace NOTEBOOK_EXT [] (f @ NOTEBOOK_EXT) = f"
    and ns: "\<not> startswith (c # f) NOTEBOOK_EXT" by simp_all
  have "\<not> (c = CHR ''.'' \<and> startswith (f @ ''.ipynb'') ''ipynb'')"
  proof
    assume a: "c = CHR ''.'' \<and> startswith (f @ ''.ipynb'') ''ipynb''"
    then have "take (length ''ipynb'') (f @ ''.ipynb'') = ''ipynb''"
      unfolding startswith_def by blast
    moreover have n: "length ''ipynb'' = 5" by simp
    ultimately have t: "take 5 (f @ ''.ipynb'') = ''ipynb''" by metis
    show False
    proof (cases "5 \<le> length f")
      case True
      with t have "take 5 f = ''ipynb''" by simp
      then have "take (length ''ipynb'') f = ''ipynb''" by (simp only: n)
      then have "startswith f ''ipynb''" unfolding startswith_def .
      with a ns show False by (simp add: NOTEBOOK_EXT_def)
    next
      case False
      then have "(take 5 (f @ ''.ipynb'')) ! length f = CHR ''.''"
        by (simp add: nth_append)
      moreover have "length f < length (take 5 (f @ ''.ipynb''))" using False by simp
      ultimately have "CHR ''.'' \<in> set (take 5 (f @ ''.ipynb''))"
        by (metis nth_mem)
      with t show False by simp
    qed
  qed
  with IH show ?case
    by (auto simp: str_replace_def NOTEBOOK_EXT_def)
qed

section \<open>Flattening a notebook path and recovering it\<close>

text \<open>
  Claim C2, as the source has it. \<open>safe_name\<close> replaces every separator by the
  placeholder and deletes every occurrence of the extension text; the inverse replaces
  every placeholder by a separator and appends the extension. For a path \<open>p\<close> that ends
  in the notebook extension, contains the extension text nowhere else, contains no
  placeholder token and no underscore directly before a separator, flattening and then
  recovering gives \<open>p\<close> back.
\<close>

theorem safe_name_roundtrip:
  assumes "p = q @ NOTEBOOK_EXT" and "\<not> str_in NOTEBOOK_EXT q"
    and "\<not> str_in PATHSEP_REPLACEMENT p" and "\<not> str_in (''_'' @ PATHSEP) p"
  shows "recover_path (safe_name_of p) = p"
proof -
  let ?flat = "str_replace PATHSEP PATHSEP_REPLACEMENT"
  have app: "?flat (a @ b) = ?flat a @ ?flat b" for a b
    by (induction a) (simp_all add: flatten_Nil flatten_Cons)
  have "?flat NOTEBOOK_EXT = NOTEBOOK_EXT"
    by (simp add: NOTEBOOK_EXT_def str_replace_def PATHSEP_def startswith_def)
  then have "?flat p = ?flat q @ NOTEBOOK_EXT" using assms(1) app by simp
  moreover have "\<not> str_in NOTEBOOK_EXT (?flat q)"
    using assms(2) flatten_str_in_ext by blast
  ultimately have s: "safe_name_of p = ?flat q"
    by (simp add: safe_name_of_def strip_ext)
  have "\<not> str_in ''_/'' p" "\<not> str_in ''___'' p"
    using assms(3,4) by (simp_all add: PATHSEP_def PATHSEP_REPLACEMENT_def)
  then have "\<not> str_in ''_/'' q" "\<not> str_in ''___'' q"
    using assms(1) str_in_append by blast+
  then show ?thesis using s assms(1) by (simp add: recover_path_def unflatten_flatten)
qed

theorem safe_name_roundtrip_witness:
  "''/home/user/notebooks/analysis.ipynb'' = ''/home/user/notebooks/analysis'' @ NOTEBOOK_EXT
   \<and> \<not> str_in NOTEBOOK_EXT ''/home/user/notebooks/analysis''
   \<and> \<not> str_in PATHSEP_REPLACEMENT ''/home/user/notebooks/analysis.ipynb''
   \<and> \<not> str_in (''_'' @ PATHSEP) ''/home/user/notebooks/analysis.ipynb''
   \<and> recover_path (safe_name_of ''/home/user/notebooks/analysis.ipynb'')
       = ''/home/user/notebooks/analysis.ipynb''"
proof -
  have h1: "''/home/user/notebooks/analysis.ipynb'' = ''/home/user/notebooks/analysis'' @ NOTEBOOK_EXT"
    by (simp add: NOTEBOOK_EXT_def)
  have h2: "\<not> str_in NOTEBOOK_EXT ''/home/user/notebooks/analysis''"
    by code_simp
  have h3: "\<not> str_in PATHSEP_REPLACEMENT ''/home/user/notebooks/analysis.ipynb''"
    by code_simp
  have h4: "\<not> str_in (''_'' @ PATHSEP) ''/home/user/notebooks/analysis.ipynb''"
    by code_simp
  from safe_name_roundtrip [OF h1 h2 h3 h4] h1 h2 h3 h4 show ?thesis by blast
qed

text \<open>
  The round trip as the claim states it fails on paths the resolver accepts: a path
  holding the placeholder token, one with an underscore before a separator, and one
  with the extension text inside a directory name each come back changed.
\<close>

theorem safe_name_roundtrip_counterexample:
  "ProjectChecker_classify sample_env sample_disk ''/home/user/nb/a___b.ipynb''
     = Inr (AbstractProject, ''/home/user/nb/a___b.ipynb'')
   \<and> recover_path (safe_name_of ''/home/user/nb/a___b.ipynb'') = ''/home/user/nb/a/b.ipynb''
   \<and> recover_path (safe_name_of ''/home/user/nb/a___b.ipynb'') \<noteq> ''/home/user/nb/a___b.ipynb''"
  by code_simp

section \<open>Construction\<close>

lemma mkdir_is_dir: "mkdir disk p = Inr disk' \<Longrightarrow> is_dir disk' p"
  by (auto simp: mkdir_def is_dir_def split: option.splits node.splits)

lemma mkdir_succeeds:
  "is_dir disk (path_parent p) \<Longrightarrow> \<not> is_file disk p \<Longrightarrow> \<exists>disk'. mkdir disk p = Inr disk'"
  by (auto simp: mkdir_def is_dir_def is_file_def split: option.splits node.splits)

lemma mkdir_OSError: "mkdir disk p = Inl err \<Longrightarrow> \<exists>oe. err = OSError oe"
  by (auto simp: mkdir_def split: option.splits node.splits)

lemma Project_init_kind_name:
  "Project_init e st cls nm = Inr (self, st') \<Longrightarrow> kind self = cls \<and> name self = nm"
  by (auto simp: Project_init_def Project_set_names_def Let_def split: sum.splits)

lemma Project_init_is_dir:
  "Project_init e st cls nm = Inr (self, st') \<Longrightarrow> is_dir (fs st') (project_dir self)"
  by (auto simp: Project_init_def Let_def split: sum.splits dest: mkdir_is_dir)

lemma type_call_eq: "type_call e st cls nm = Project_init e st cls nm"
  by (cases cls) (simp_all add: type_call_def ConcreteProject_init_def)

lemma Project_init_OSError:
  "Project_init e st cls nm = Inl err \<Longrightarrow> \<exists>oe. err = OSError oe"
  by (auto simp: Project_init_def Let_def split: sum.splits dest: mkdir_OSError)

lemma Project_init_succeeds:
  assumes "is_dir (fs st) (path_parent (project_dir (Project_set_names e cls nm)))"
    and "\<not> is_file (fs st) (project_dir (Project_set_names e cls nm))"
  shows "\<exists>self st'. Project_init e st cls nm = Inr (self, st')"
  using mkdir_succeeds [OF assms] by (auto simp: Project_init_def Let_def)

text \<open>
  Claim C1, as the source has it. Both variants run \<open>Project.__init__\<close>, which creates
  the directory: whenever constructing a project returns an instance, Concrete or
  Abstract, its \<open>project_dir\<close> is a directory on disk afterwards.
\<close>

theorem construction_creates_project_dir:
  "ProjectChecker_call e st nm = Inr (self, st') \<Longrightarrow> is_dir (fs st') (project_dir self)"
  by (auto simp: ProjectChecker_call_def type_call_eq split: sum.splits prod.splits
           dest: Project_init_is_dir)

theorem construction_creates_project_dir_witness:
  "ProjectChecker_call sample_env sample_state ''/home/user/nb/old.ipynb'' =
     Inr (\<lparr>kind = ConcreteProject, name = ''/home/user/nb/old.ipynb'',
           safe_name = ''___home___user___nb___old'',
           project_dir = ''/home/user/.davos/projects/___home___user___nb___old'',
           site_packages_dir =
             ''/home/user/.davos/projects/___home___user___nb___old/lib/python3.11/site-packages''\<rparr>,
          \<lparr>fs = (''/home/user/.davos/projects/___home___user___nb___old'', Dir) # sample_disk,
           atexit_registry = [''/home/user/.davos/projects/___home___user___nb___old''],
           printed = []\<rparr>)
   \<and> is_dir ((''/home/user/.davos/projects/___home___user___nb___old'', Dir) # sample_disk)
        ''/home/user/.davos/projects/___home___user___nb___old''"
proof -
  have h: "ProjectChecker_call sample_env sample_state ''/home/user/nb/old.ipynb'' =
     Inr (\<lparr>kind = ConcreteProject, name = ''/home/user/nb/old.ipynb'',
           safe_name = ''___home___user___nb___old'',
           project_dir = ''/home/user/.davos/projects/___home___user___nb___old'',
           site_packages_dir =
             ''/home/user/.davos/projects/___home___user___nb___old/lib/python3.11/site-packages''\<rparr>,
          \<lparr>fs = (''/home/user/.davos/projects/___home___user___nb___old'', Dir) # sample_disk,
           atexit_registry = [''/home/user/.davos/projects/___home___user___nb___old''],
           printed = []\<rparr>)"
    by code_simp
  from construction_creates_project_dir [OF h] h show ?thesis by simp
qed

text \<open>
  Constructing an Abstract project for a notebook that does not exist creates a
  project directory that was not on disk before.
\<close>

theorem abstract_construction_counterexample:
  "ProjectChecker_call sample_env sample_state ''/home/user/nb/new.ipynb'' =
     Inr (\<lparr>kind = AbstractProject, name = ''/home/user/nb/new.ipynb'',
           safe_name = ''___home___user___nb___new'',
           project_dir = ''/home/user/.davos/projects/___home___user___nb___new'',
           site_packages_dir =
             ''/home/user/.davos/projects/___home___user___nb___new/lib/python3.11/site-packages''\<rparr>,
          \<lparr>fs = (''/home/user/.davos/projects/___home___user___nb___new'', Dir) # sample_disk,
           atexit_registry = [''/home/user/.davos/projects/___home___user___nb___new''],
           printed = []\<rparr>)
   \<and> map_of (fs sample_state) ''/home/user/.davos/projects/___home___user___nb___new'' = None
   \<and> is_dir ((''/home/user/.davos/projects/___home___user___nb___new'', Dir) # sample_disk)
        ''/home/user/.davos/projects/___home___user___nb___new''"
  by code_simp

section \<open>The identity resolver\<close>

lemma ProjectChecker_call_errors:
  assumes "ProjectChecker_classify e (fs st) nm = Inr (cls, nm')"
  shows "ProjectChecker_call e st nm = Project_init e st cls nm'"
  using assms by (simp add: ProjectChecker_call_def type_call_eq)

text \<open>
  Claim C5. A name that contains a path separator and whose resolved path has a suffix
  other than the notebook extension, or is a directory, makes construction fail with
  the naming error, on every disk (so whether or not the target exists); no instance
  and no new state is produced.
\<close>

theorem path_name_rejected:
  assumes "str_in PATHSEP nm"
    and "path_suffix (resolve e nm) \<noteq> NOTEBOOK_EXT \<or> is_dir (fs st) (resolve e nm)"
  shows "ProjectChecker_call e st nm
           = Inl (DavosProjectError (invalid_name_msg nm (resolve e nm)))"
  using assms
  by (auto simp: ProjectChecker_call_def ProjectChecker_classify_def Let_def NOTEBOOK_EXT_def)

theorem path_name_rejected_witness:
  "str_in PATHSEP ''/home/user/nb/notes.txt''
   \<and> path_suffix (resolve sample_env ''/home/user/nb/notes.txt'') \<noteq> NOTEBOOK_EXT
   \<and> is_file (fs sample_state) ''/home/user/nb/notes.txt''
   \<and> ProjectChecker_call sample_env sample_state ''/home/user/nb/notes.txt''
       = Inl (DavosProjectError (invalid_name_msg ''/home/user/nb/notes.txt''
                (resolve sample_env ''/home/user/nb/notes.txt'')))
   \<and> str_in PATHSEP ''/home/user/nb/absent.txt''
   \<and> path_suffix (resolve sample_env ''/home/user/nb/absent.txt'') \<noteq> NOTEBOOK_EXT
   \<and> map_of (fs sample_state) ''/home/user/nb/absent.txt'' = None
   \<and> ProjectChecker_call sample_env sample_state ''/home/user/nb/absent.txt''
       = Inl (DavosProjectError (invalid_name_msg ''/home/user/nb/absent.txt''
                (resolve sample_env ''/home/user/nb/absent.txt'')))
   \<and> str_in PATHSEP ''/home/user/nb/dir.ipynb''
   \<and> path_suffix (resolve sample_env ''/home/user/nb/dir.ipynb'') = NOTEBOOK_EXT
   \<and> is_dir (fs sample_state) (resolve sample_env ''/home/user/nb/dir.ipynb'')
   \<and> ProjectChecker_call sample_env sample_state ''/home/user/nb/dir.ipynb''
       = Inl (DavosProjectError (invalid_name_msg ''/home/user/nb/dir.ipynb''
                (resolve sample_env ''/home/user/nb/dir.ipynb'')))"
proof -
  have a1: "str_in PATHSEP ''/home/user/nb/notes.txt''" by code_simp
  have a2: "path_suffix (resolve sample_env ''/home/user/nb/notes.txt'') \<noteq> NOTEBOOK_EXT"
    by code_simp
  have a3: "is_file (fs sample_state) ''/home/user/nb/notes.txt''" by code_simp
  have b1: "str_in PATHSEP ''/home/user/nb/absent.txt''" by code_simp
  have b2: "path_suffix (resolve sample_env ''/home/user/nb/absent.txt'') \<noteq> NOTEBOOK_EXT"
    by code_simp
  have b3: "map_of (fs sample_state) ''/home/user/nb/absent.txt'' = None" by code_simp
  have c1: "str_in PATHSEP ''/home/user/nb/dir.ipynb''" by code_simp
  have c2: "path_suffix (resolve sample_env ''/home/user/nb/dir.ipynb'') = NOTEBOOK_EXT"
    by code_simp
  have c3: "is_dir (fs sample_state) (resolve sample_env ''/home/user/nb/dir.ipynb'')"
    by code_simp
  note r1 = path_name_rejected [OF a1 disjI1 [OF a2], of sample_state]
  note r2 = path_name_rejected [OF b1 disjI1 [OF b2], of sample_state]
  note r3 = path_name_rejected [OF c1 disjI2 [OF c3]]
  from a1 a2 a3 r1 b1 b2 b3 r2 c1 c2 c3 r3 show ?thesis by blast
qed

text \<open>
  Claim C6. A plain name, with neither a path separator nor the placeholder token, is
  classified Concrete under its own name on every disk, so no existence check enters
  the decision. Every instance that construction returns is Concrete and carries the
  input as its name; the only way construction can fail is an operating-system error
  from creating the directory, and it does return an instance when the parent of the
  project directory is a directory and no file is in the way.
\<close>

theorem plain_name_concrete:
  assumes "\<not> str_in PATHSEP nm" and "\<not> str_in PATHSEP_REPLACEMENT nm"
  shows "ProjectChecker_classify e disk nm = Inr (ConcreteProject, nm)
    \<and> (\<forall>self st'. ProjectChecker_call e st nm = Inr (self, st')
          \<longrightarrow> kind self = ConcreteProject \<and> name self = nm)
    \<and> (\<forall>err. ProjectChecker_call e st nm = Inl err \<longrightarrow> (\<exists>oe. err = OSError oe))
    \<and> (is_dir (fs st) (path_parent (joinpath (DAVOS_PROJECT_DIR e) (safe_name_of nm)))
        \<and> \<not> is_file (fs st) (joinpath (DAVOS_PROJECT_DIR e) (safe_name_of nm))
        \<longrightarrow> (\<exists>self st'. ProjectChecker_call e st nm = Inr (self, st')))"
proof -
  have c: "ProjectChecker_classify e d nm = Inr (ConcreteProject, nm)" for d
    using assms by (simp add: ProjectChecker_classify_def)
  then have call: "ProjectChecker_call e st nm = Project_init e st ConcreteProject nm"
    by (rule ProjectChecker_call_errors)
  have pd: "project_dir (Project_set_names e ConcreteProject nm)
              = joinpath (DAVOS_PROJECT_DIR e) (safe_name_of nm)"
    by (simp add: Project_set_names_def Let_def)
  show ?thesis
    using c call Project_init_kind_name [of e st ConcreteProject nm]
      Project_init_OSError [of e st ConcreteProject nm]
      Project_init_succeeds [of st e ConcreteProject nm]
    by (auto simp: pd)
qed

theorem plain_name_concrete_witness:
  "\<not> str_in PATHSEP ''myproj'' \<and> \<not> str_in PATHSEP_REPLACEMENT ''myproj''
   \<and> ProjectChecker_classify sample_env sample_disk ''myproj'' = Inr (ConcreteProject, ''myproj'')
   \<and> is_dir (fs sample_state) (path_parent (joinpath (DAVOS_PROJECT_DIR sample_env) (safe_name_of ''myproj'')))
   \<and> \<not> is_file (fs sample_state) (joinpath (DAVOS_PROJECT_DIR sample_env) (safe_name_of ''myproj''))
   \<and> ProjectChecker_call sample_env sample_state ''myproj'' =
       Inr (\<lparr>kind = ConcreteProject, name = ''myproj'', safe_name = ''myproj'',
             project_dir = ''/home/user/.davos/projects/myproj'',
             site_packages_dir = ''/home/user/.davos/projects/myproj/lib/python3.11/site-packages''\<rparr>,
            \<lparr>fs = (''/home/user/.davos/projects/myproj'', Dir) # sample_disk,
             atexit_registry = [''/home/user/.davos/projects/myproj''], printed = []\<rparr>)
   \<and> kind \<lparr>kind = ConcreteProject, name = ''myproj'', safe_name = ''myproj'',
             project_dir = ''/home/user/.davos/projects/myproj'',
             site_packages_dir = ''/home/user/.davos/projects/myproj/lib/python3.11/site-packages''\<rparr>
       = ConcreteProject"
proof -
  let ?P = "\<lparr>kind = ConcreteProject, name = ''myproj'', safe_name = ''myproj'',
             project_dir = ''/home/user/.davos/projects/myproj'',
             site_packages_dir = ''/home/user/.davos/projects/myproj/lib/python3.11/site-packages''\<rparr>"
  let ?S = "\<lparr>fs = (''/home/user/.davos/projects/myproj'', Dir) # sample_disk,
             atexit_registry = [''/home/user/.davos/projects/myproj''], printed = []\<rparr>"
  have h1: "\<not> str_in PATHSEP ''myproj''" by code_simp
  have h2: "\<not> str_in PATHSEP_REPLACEMENT ''myproj''" by code_simp
  have h3: "is_dir (fs sample_state) (path_parent (joinpath (DAVOS_PROJECT_DIR sample_env) (safe_name_of ''myproj'')))"
    by code_simp
  have h4: "\<not> is_file (fs sample_state) (joinpath (DAVOS_PROJECT_DIR sample_env) (safe_name_of ''myproj''))"
    by code_simp
  have h5: "ProjectChecker_call sample_env sample_state ''myproj'' = Inr (?P, ?S)"
    by code_simp
  note t = plain_name_concrete [OF h1 h2, of sample_env sample_disk sample_state]
  from t have "ProjectChecker_classify sample_env sample_disk ''myproj'' = Inr (ConcreteProject, ''myproj'')"
    by blast
  moreover from t h5 have "kind ?P = ConcreteProject" by blast
  ultimately show ?thesis using h1 h2 h3 h4 h5 by blast
qed

text \<open>
  Claim C4. A name without a path separator that contains the placeholder token is
  never rejected with a naming error, whatever its shape: it is classified Concrete
  when the recovered notebook file exists and Abstract when it does not, the name of
  every instance returned is the recovered path string, the only possible failure is
  an operating-system error from creating the directory, and an instance is returned
  when the parent of the project directory is a directory and no file is in the way.
\<close>

theorem placeholder_name_recovered:
  assumes "\<not> str_in PATHSEP nm" and "str_in PATHSEP_REPLACEMENT nm"
  shows "ProjectChecker_classify e disk nm
           = Inr (if is_file disk (path_str e (recover_path nm)) then ConcreteProject
                  else AbstractProject, path_str e (recover_path nm))
    \<and> (\<forall>self st'. ProjectChecker_call e st nm = Inr (self, st')
          \<longrightarrow> kind self = (if is_file (fs st) (path_str e (recover_path nm))
                           then ConcreteProject else AbstractProject)
              \<and> name self = path_str e (recover_path nm))
    \<and> (\<forall>err. ProjectChecker_call e st nm = Inl err \<longrightarrow> (\<exists>oe. err = OSError oe))
    \<and> (is_dir (fs st) (path_parent (joinpath (DAVOS_PROJECT_DIR e)
                                       (safe_name_of (path_str e (recover_path nm)))))
        \<and> \<not> is_file (fs st) (joinpath (DAVOS_PROJECT_DIR e)
                                 (safe_name_of (path_str e (recover_path nm))))
        \<longrightarrow> (\<exists>self st'. ProjectChecker_call e st nm = Inr (self, st')))"
proof -
  let ?rp = "path_str e (recover_path nm)"
  let ?cls = "\<lambda>d. if is_file d ?rp then ConcreteProject else AbstractProject"
  have c: "ProjectChecker_classify e d nm = Inr (?cls d, ?rp)" for d
    using assms by (simp add: ProjectChecker_classify_def Let_def)
  then have call: "ProjectChecker_call e st nm = Project_init e st (?cls (fs st)) ?rp"
    by (rule ProjectChecker_call_errors)
  have pd: "project_dir (Project_set_names e k ?rp)
              = joinpath (DAVOS_PROJECT_DIR e) (safe_name_of ?rp)" for k
    by (simp add: Project_set_names_def Let_def)
  show ?thesis
    using c [of disk] call Project_init_kind_name [of e st "?cls (fs st)" ?rp]
      Project_init_OSError [of e st "?cls (fs st)" ?rp]
      Project_init_succeeds [of st e "?cls (fs st)" ?rp]
    by (simp add: pd)
qed


theorem placeholder_name_recovered_witness:
  "\<not> str_in PATHSEP ''a___'' \<and> str_in PATHSEP_REPLACEMENT ''a___''
   \<and> path_str sample_env (recover_path ''a___'') = ''a/.ipynb''
   \<and> \<not> is_file (fs sample_state) ''a/.ipynb''
   \<and> ProjectChecker_classify sample_env sample_disk ''a___'' = Inr (AbstractProject, ''a/.ipynb'')
   \<and> ProjectChecker_call sample_env sample_state ''a___'' =
       Inr (\<lparr>kind = AbstractProject, name = ''a/.ipynb'', safe_name = ''a___'',
             project_dir = ''/home/user/.davos/projects/a___'',
             site_packages_dir = ''/home/user/.davos/projects/a___/lib/python3.11/site-packages''\<rparr>,
            \<lparr>fs = (''/home/user/.davos/projects/a___'', Dir) # sample_disk,
             atexit_registry = [''/home/user/.davos/projects/a___''], printed = []\<rparr>)
   \<and> \<not> str_in PATHSEP ''___home___user___nb___old''
   \<and> str_in PATHSEP_REPLACEMENT ''___home___user___nb___old''
   \<and> path_str sample_env (recover_path ''___home___user___nb___old'') = ''/home/user/nb/old.ipynb''
   \<and> is_file sample_disk ''/home/user/nb/old.ipynb''
   \<and> ProjectChecker_classify sample_env sample_disk ''___home___user___nb___old''
       = Inr (ConcreteProject, ''/home/user/nb/old.ipynb'')"
proof -
  have a1: "\<not> str_in PATHSEP ''a___''" by code_simp
  have a2: "str_in PATHSEP_REPLACEMENT ''a___''" by code_simp
  have a3: "path_str sample_env (recover_path ''a___'') = ''a/.ipynb''" by code_simp
  have a4: "\<not> is_file (fs sample_state) ''a/.ipynb''" by code_simp
  have a4': "\<not> is_file sample_disk ''a/.ipynb''" by code_simp
  have a5: "ProjectChecker_call sample_env sample_state ''a___'' =
       Inr (\<lparr>kind = AbstractProject, name = ''a/.ipynb'', safe_name = ''a___'',
             project_dir = ''/home/user/.davos/projects/a___'',
             site_packages_dir = ''/home/user/.davos/projects/a___/lib/python3.11/site-packages''\<rparr>,
            \<lparr>fs = (''/home/user/.davos/projects/a___'', Dir) # sample_disk,
             atexit_registry = [''/home/user/.davos/projects/a___''], printed = []\<rparr>)"
    by code_simp
  have b1: "\<not> str_in PATHSEP ''___home___user___nb___old''" by code_simp
  have b2: "str_in PATHSEP_REPLACEMENT ''___home___user___nb___old''" by code_simp
  have b3: "path_str sample_env (recover_path ''___home___user___nb___old'') = ''/home/user/nb/old.ipynb''"
    by code_simp
  have b4: "is_file sample_disk ''/home/user/nb/old.ipynb''" by code_simp
  from placeholder_name_recovered [OF a1 a2, of sample_env sample_disk sample_state]
  have "ProjectChecker_classify sample_env sample_disk ''a___'' = Inr (AbstractProject, ''a/.ipynb'')"
    by (simp add: a3 a4')
  moreover
  from placeholder_name_recovered [OF b1 b2, of sample_env sample_disk sample_state]
  have "ProjectChecker_classify sample_env sample_disk ''___home___user___nb___old''
       = Inr (ConcreteProject, ''/home/user/nb/old.ipynb'')"
    by (simp add: b3 b4)
  ultimately show ?thesis using a1 a2 a3 a4 a5 b1 b2 b3 b4 by blast
qed


section \<open>Explicit removal\<close>

lemma map_of_filter_fst:
  "map_of (filter (\<lambda>(q, n). P q) xs) k = (if P k then map_of xs k else None)"
  by (induction xs) auto

lemma rmtree_permitted:
  assumes "map_of disk d = Some Dir"
    and "\<forall>q. under d q \<longrightarrow> map_of disk q \<noteq> Some LockedDir"
  shows "rmtree disk d = Inr (filter (\<lambda>(q, n). q \<noteq> d \<and> \<not> under d q) disk)"
proof -
  have "\<not> list_ex (\<lambda>q. (q = d \<or> under d q) \<and> map_of disk q = Some LockedDir) (map fst disk)"
    using assms by (auto simp: list_ex_iff)
  then show ?thesis using assms(1) by (simp add: rmtree_def)
qed


text \<open>
  Claim C7. With the confirmation bypass, \<open>remove\<close> on a project whose directory is
  on disk, with no directory below it that refuses listing, returns normally and
  leaves nothing at or below \<open>project_dir\<close>, while every other path keeps its node.
  Without the bypass and with a negative answer to the prompt, \<open>remove\<close> returns
  normally with the disk exactly as it was; it only prints that nothing was removed.
\<close>

theorem remove_deletes_or_keeps:
  "(map_of (fs st) (project_dir self) = Some Dir
    \<and> (\<forall>q. under (project_dir self) q \<longrightarrow> map_of (fs st) q \<noteq> Some LockedDir)
    \<longrightarrow> (\<exists>st'. Project_remove e st self True = Inr st'
          \<and> (\<forall>q. q = project_dir self \<or> under (project_dir self) q \<longrightarrow> map_of (fs st') q = None)
          \<and> (\<forall>q. q \<noteq> project_dir self \<and> \<not> under (project_dir self) q
                 \<longrightarrow> map_of (fs st') q = map_of (fs st) q)))
   \<and> (\<not> prompt_input e (''Remove project '' @ [CHR 0x27] @ name self
                           @ '' and all installed packages?'') ''n''
      \<longrightarrow> Project_remove e st self False
            = Inr (st\<lparr>printed := printed st @ [name self @ '' not removed'']\<rparr>))"
proof (intro conjI impI)
  assume a: "map_of (fs st) (project_dir self) = Some Dir
    \<and> (\<forall>q. under (project_dir self) q \<longrightarrow> map_of (fs st) q \<noteq> Some LockedDir)"
  let ?d = "project_dir self"
  let ?disk = "filter (\<lambda>(q, n). q \<noteq> ?d \<and> \<not> under ?d q) (fs st)"
  from a have r: "rmtree (fs st) ?d = Inr ?disk" by (simp add: rmtree_permitted)
  have "Project_remove e st self True
          = Inr (st\<lparr>printed := printed st @ [''Removing '' @ ?d @ ''...''], fs := ?disk\<rparr>)"
    by (simp add: Project_remove_def Let_def r)
  moreover have "map_of ?disk q = (if q \<noteq> ?d \<and> \<not> under ?d q then map_of (fs st) q else None)" for q
    by (rule map_of_filter_fst)
  ultimately show "\<exists>st'. Project_remove e st self True = Inr st'
          \<and> (\<forall>q. q = ?d \<or> under ?d q \<longrightarrow> map_of (fs st') q = None)
          \<and> (\<forall>q. q \<noteq> ?d \<and> \<not> under ?d q \<longrightarrow> map_of (fs st') q = map_of (fs st) q)"
    by simp
next
  assume "\<not> prompt_input e (''Remove project '' @ [CHR 0x27] @ name self
                           @ '' and all installed packages?'') ''n''"
  then show "Project_remove e st self False
            = Inr (st\<lparr>printed := printed st @ [name self @ '' not removed'']\<rparr>)"
    by (simp add: Project_remove_def Let_def)
qed


theorem remove_deletes_or_keeps_witness:
  "map_of (fs installed_state) (project_dir (sample_project ConcreteProject)) = Some Dir
   \<and> children (fs installed_state) (project_dir (sample_project ConcreteProject)) \<noteq> []
   \<and> Project_remove sample_env installed_state (sample_project ConcreteProject) True
       = Inr \<lparr>fs = sample_disk, atexit_registry = [],
              printed = [''Removing /home/user/.davos/projects/myproj...'']\<rparr>
   \<and> map_of sample_disk ''/home/user/.davos/projects/myproj'' = None
   \<and> map_of sample_disk ''/home/user/.davos/projects/myproj/lib/pkg.py'' = None
   \<and> map_of sample_disk ''/home/user/nb/old.ipynb'' = map_of installed_disk ''/home/user/nb/old.ipynb''
   \<and> \<not> prompt_input sample_env (''Remove project '' @ [CHR 0x27]
           @ name (sample_project ConcreteProject) @ '' and all installed packages?'') ''n''
   \<and> Project_remove sample_env installed_state (sample_project ConcreteProject) False
       = Inr \<lparr>fs = installed_disk, atexit_registry = [], printed = [''myproj not removed'']\<rparr>"
proof -
  let ?self = "sample_project ConcreteProject"
  let ?d = "''/home/user/.davos/projects/myproj''"
  have d: "project_dir ?self = ?d" by (simp add: sample_project_def)
  have h1: "map_of (fs installed_state) (project_dir ?self) = Some Dir" by code_simp
  have h2: "\<forall>q. under (project_dir ?self) q \<longrightarrow> map_of (fs installed_state) q \<noteq> Some LockedDir"
    by (simp add: installed_state_def installed_disk_def sample_disk_def)
  have h3: "\<not> prompt_input sample_env (''Remove project '' @ [CHR 0x27]
           @ name ?self @ '' and all installed packages?'') ''n''"
    by (simp add: sample_env_def)
  have c: "children (fs installed_state) (project_dir ?self) \<noteq> []" by code_simp
  have r: "Project_remove sample_env installed_state ?self True
       = Inr \<lparr>fs = sample_disk, atexit_registry = [],
              printed = [''Removing /home/user/.davos/projects/myproj...'']\<rparr>"
    by code_simp
  note t = remove_deletes_or_keeps [of installed_state ?self sample_env]
  from t h1 h2 obtain st' where
    s: "Project_remove sample_env installed_state ?self True = Inr st'"
    and gone: "\<forall>q. q = project_dir ?self \<or> under (project_dir ?self) q \<longrightarrow> map_of (fs st') q = None"
    and kept: "\<forall>q. q \<noteq> project_dir ?self \<and> \<not> under (project_dir ?self) q
                 \<longrightarrow> map_of (fs st') q = map_of (fs installed_state) q"
    by blast
  from s r have "st' = \<lparr>fs = sample_disk, atexit_registry = [],
              printed = [''Removing /home/user/.davos/projects/myproj...'']\<rparr>"
    by simp
  then have st': "fs st' = sample_disk" by simp
  have u1: "under (project_dir ?self) ''/home/user/.davos/projects/myproj/lib/pkg.py''" by code_simp
  have u2: "''/home/user/nb/old.ipynb'' \<noteq> project_dir ?self
            \<and> \<not> under (project_dir ?self) ''/home/user/nb/old.ipynb''" by code_simp
  from gone st' d have g1: "map_of sample_disk ''/home/user/.davos/projects/myproj'' = None"
    by metis
  from gone st' u1 have g2: "map_of sample_disk ''/home/user/.davos/projects/myproj/lib/pkg.py'' = None"
    by metis
  from kept st' u2 have k: "map_of sample_disk ''/home/user/nb/old.ipynb''
                            = map_of installed_disk ''/home/user/nb/old.ipynb''"
    by (simp add: installed_state_def)
  from t h3 have n: "Project_remove sample_env installed_state ?self False
       = Inr (installed_state\<lparr>printed := printed installed_state @ [name ?self @ '' not removed'']\<rparr>)"
    by blast
  have n': "Project_remove sample_env installed_state ?self False
       = Inr \<lparr>fs = installed_disk, atexit_registry = [], printed = [''myproj not removed'']\<rparr>"
    unfolding n by (simp add: installed_state_def sample_project_def)
  from h1 c r g1 g2 k h3 n' show ?thesis by blast
qed

section \<open>The Abstract variant\<close>












section \<open>Capabilities that are not implemented\<close>

text \<open>
  Claim C9. \<open>rename\<close> and \<open>update_name\<close> on a project of either variant, the
  \<open>installed_packages\<close> property of a Concrete project, and the five stubs of
  \<open>davos.implementations.python\<close> raise \<open>NotImplementedError\<close> for every argument.
\<close>

theorem not_implemented_capabilities:
  "is_not_implemented (call_rename e self new_name)
   \<and> is_not_implemented (call_update_name e self)
   \<and> (kind self = ConcreteProject
        \<longrightarrow> is_not_implemented (getattribute e self ''installed_packages''))
   \<and> is_not_implemented (activate_helper smuggle_func parser_func)
   \<and> is_not_implemented (deactivate_helper smuggle_func' parser_func')
   \<and> is_not_implemented (auto_restart_rerun pkgs)
   \<and> is_not_implemented (generate_parser_func line_parser)
   \<and> is_not_implemented (prompt_restart_rerun_buttons pkgs')"
proof -
  have "getattribute e self ''rename'' = Inr (ClassAttr ''rename'')"
    by (simp add: getattribute_def class_mro_names_def instance_dict_def
          Project_namespace_def Project_methods_def)
  moreover have "getattribute e self ''update_name'' = Inr (ClassAttr ''update_name'')"
    by (simp add: getattribute_def class_mro_names_def instance_dict_def
          Project_namespace_def Project_methods_def)
  ultimately show ?thesis
    by (simp add: call_rename_def call_update_name_def Project_rename_def
          Project_update_name_def getattribute_def ConcreteProject_installed_packages_def
          activate_helper_def deactivate_helper_def auto_restart_rerun_def
          generate_parser_func_def prompt_restart_rerun_buttons_def)
qed

theorem not_implemented_capabilities_witness:
  "kind (sample_project ConcreteProject) = ConcreteProject
   \<and> is_not_implemented (getattribute sample_env (sample_project ConcreteProject) ''installed_packages'')
   \<and> is_not_implemented (call_rename sample_env (sample_project AbstractProject) ''other'')
   \<and> is_not_implemented (call_update_name sample_env (sample_project ConcreteProject))
   \<and> is_not_implemented (auto_restart_rerun [''numpy'', ''scipy''] :: error + unit)"
proof -
  have k: "kind (sample_project ConcreteProject) = ConcreteProject"
    by (simp add: sample_project_def)
  note t = not_implemented_capabilities
  from t [of sample_env "sample_project ConcreteProject", THEN conjunct2, THEN conjunct2, THEN conjunct1] k
  have a: "is_not_implemented (getattribute sample_env (sample_project ConcreteProject) ''installed_packages'')"
    by (rule mp)
  from t [of sample_env "sample_project AbstractProject" "''other''", THEN conjunct1]
  have b: "is_not_implemented (call_rename sample_env (sample_project AbstractProject) ''other'')" .
  from t [of sample_env "sample_project ConcreteProject", THEN conjunct2, THEN conjunct1]
  have c: "is_not_implemented (call_update_name sample_env (sample_project ConcreteProject))" .
  from t [THEN conjunct2, THEN conjunct2, THEN conjunct2, THEN conjunct2, THEN conjunct2,
          THEN conjunct1]
  have d: "is_not_implemented (auto_restart_rerun [''numpy'', ''scipy''] :: error + unit)" .
  from k a b c d show ?thesis by blast
qed

section \<open>The shell helper's loop\<close>

lemma helper_loop_exit_zero:
  "Interrupt \<notin> set evs \<Longrightarrow> helper_loop fuel cmd evs 0 out = None"
proof (induction fuel arbitrary: evs out)
  case 0
  then show ?case by simp
next
  case (Suc n)
  show ?case
  proof (cases evs)
    case Nil
    with Suc.IH [of "[]" out] show ?thesis by simp
  next
    case (Cons ev evs')
    with Suc.prems obtain s where "ev = Readline s" by (cases ev) auto
    with Cons Suc.prems Suc.IH [of evs'] show ?thesis by simp
  qed
qed

lemma helper_loop_exit_nonzero:
  "rc \<noteq> 0 \<Longrightarrow> Interrupt \<notin> set evs \<Longrightarrow> length evs < fuel \<Longrightarrow>
   \<exists>out'. helper_loop fuel cmd evs rc out
            = Some \<lparr>result = Inl (CalledProcessError rc cmd), written = out', sigint_sent = False\<rparr>"
proof (induction evs arbitrary: fuel out)
  case Nil
  then obtain n where "fuel = Suc n" by (cases fuel) auto
  with Nil show ?case by simp
next
  case (Cons ev evs)
  then obtain n where f: "fuel = Suc n" by (cases fuel) auto
  from Cons.prems obtain s where ev: "ev = Readline s" by (cases ev) auto
  from Cons.prems f have "length evs < n" "Interrupt \<notin> set evs" by auto
  with Cons.IH [of n] Cons.prems(1) f ev show ?case by simp
qed

text \<open>
  Claim C3, at the inputs where the source departs from it. When the child exits
  with status 0 (and no interrupt arrives), \<open>_run_shell_command_helper\<close> does not
  return: whatever the number of loop iterations allowed, the loop is still running.
  The other half of the claim holds, see \<open>helper_loop_exit_nonzero\<close>.
\<close>

theorem run_shell_command_helper_exit_zero_never_returns:
  assumes "returncode (popen sh (shlex_split sh command)) = 0"
    and "Interrupt \<notin> set (events (popen sh (shlex_split sh command)))"
  shows "run_shell_command_helper sh fuel command = None"
  using assms by (simp add: run_shell_command_helper_def Let_def helper_loop_exit_zero)

theorem run_shell_command_helper_exit_zero_witness:
  "returncode (popen (sample_shell 0) (shlex_split (sample_shell 0) ''true'')) = 0
   \<and> Interrupt \<notin> set (events (popen (sample_shell 0) (shlex_split (sample_shell 0) ''true'')))
   \<and> run_shell_command_helper (sample_shell 0) 1000 ''true'' = None"
proof -
  have h1: "returncode (popen (sample_shell 0) (shlex_split (sample_shell 0) ''true'')) = 0"
    by (simp add: sample_shell_def)
  have h2: "Interrupt \<notin> set (events (popen (sample_shell 0) (shlex_split (sample_shell 0) ''true'')))"
    by (simp add: sample_shell_def)
  from run_shell_command_helper_exit_zero_never_returns [OF h1 h2] h1 h2 show ?thesis by blast
qed

section \<open>Advisory cleanup\<close>

lemma rmdir_OSError: "rmdir disk p = Inl err \<Longrightarrow> \<exists>oe. err = OSError oe"
  by (auto simp: rmdir_def split: option.splits node.splits if_splits)

lemma Project_del_never_raises: "\<exists>disk'. Project_del disk self = Inr disk'"
  by (cases "rmdir disk (project_dir self)")
     (auto simp: Project_del_def except_OSError_pass_def dest: rmdir_OSError)

lemma Project_del_empty:
  "is_dir disk (project_dir self) \<Longrightarrow> children disk (project_dir self) = [] \<Longrightarrow>
   Project_del disk self = Inr (filter (\<lambda>(q, n). q \<noteq> project_dir self) disk)"
  by (auto simp: Project_del_def except_OSError_pass_def rmdir_def is_dir_def
           split: option.splits node.splits)

lemma Project_del_nonempty:
  "children disk (project_dir self) \<noteq> [] \<Longrightarrow> Project_del disk self = Inr disk"
  by (auto simp: Project_del_def except_OSError_pass_def rmdir_def
           split: option.splits node.splits)

lemma cleanup_atexit_listable:
  "map_of disk dirpath \<noteq> Some LockedDir \<Longrightarrow>
   cleanup_project_dir_atexit disk dirpath
     = (if is_dir disk dirpath \<and> children disk dirpath = []
        then Inr (filter (\<lambda>(q, n). q \<noteq> dirpath) disk) else Inr disk)"
  by (auto simp: cleanup_project_dir_atexit_def iterdir_def is_dir_def rmdir_def
        except_OSError_pass_def split: option.splits node.splits)

text \<open>
  Claim C8, at the input where the source departs from it. The finalizer swallows
  every \<open>OSError\<close> (\<open>Project_del_never_raises\<close>), and both cleanup paths remove an
  empty directory and keep a non-empty one. The exit hook, however, lists the directory
  outside its \<open>try\<close> block: on an empty project directory that refuses listing it
  raises \<open>PermissionError\<close>, where the finalizer removes the directory silently.
\<close>

theorem cleanup_atexit_raises_on_unlistable_dir:
  "is_dir locked_disk ''/home/user/.davos/projects/myproj''
   \<and> children locked_disk ''/home/user/.davos/projects/myproj'' = []
   \<and> cleanup_project_dir_atexit locked_disk ''/home/user/.davos/projects/myproj''
       = Inl (OSError PermissionError)
   \<and> Project_del locked_disk (sample_project ConcreteProject) = Inr sample_disk"
  by code_simp


end
